theory Spec2Isabelle
  imports Main
begin

section \<open>Errors, shapes and values\<close>

text \<open>
  Every exception of the Python program is a value of \<open>error\<close>. The names that the source or
  Python itself raises are kept (\<open>NotImplementedError\<close>, \<open>KeyError\<close>, \<open>IndexError\<close>,
  \<open>ValueError\<close>, \<open>TypeError\<close>, \<open>RuntimeError\<close>); \<open>ArityError\<close>, \<open>ShapeError\<close> and
  \<open>ConfigurationError\<close> are the classes of section 7 of the specification, used by the
  components that are modelled from it; \<open>Collaborator\<close> is a failure of a pretrained network
  or of the model zoo, with its message.
\<close>

datatype error =
    NotImplementedError
  | KeyError
  | IndexError
  | ValueError
  | ZeroDivisionError
  | TypeError
  | RuntimeError
  | ArityError
  | ShapeError
  | ConfigurationError
  | Collaborator string

fun err_bind :: "error + 'a \<Rightarrow> ('a \<Rightarrow> error + 'b) \<Rightarrow> error + 'b" where
  "err_bind (Inl e) f = Inl e"
| "err_bind (Inr x) f = f x"

fun err_map :: "('a \<Rightarrow> error + 'b) \<Rightarrow> 'a list \<Rightarrow> error + 'b list" where
  "err_map f [] = Inr []"
| "err_map f (x # xs) =
     (case f x of
        Inl e \<Rightarrow> Inl e
      | Inr y \<Rightarrow> (case err_map f xs of Inl e \<Rightarrow> Inl e | Inr ys \<Rightarrow> Inr (y # ys)))"

text \<open>
  A shape descriptor is the tuple (batch, channels, height, width). The numeric kernels are
  opaque, so an Array is followed through the pipeline by its shape alone: a value is an
  Array (\<open>T\<close>) or a Stream (\<open>L\<close>, a Python list or tuple, possibly of Streams).
\<close>

type_synonym shape = "nat \<times> nat \<times> nat \<times> nat"

fun batch :: "shape \<Rightarrow> nat" where "batch (n, c, h, w) = n"
fun chans :: "shape \<Rightarrow> nat" where "chans (n, c, h, w) = c"
fun spatial :: "shape \<Rightarrow> nat \<times> nat" where "spatial (n, c, h, w) = (h, w)"

datatype val = T shape | L "val list"

text \<open>\<open>shapes_of\<close> is the comprehension \<open>[f.shape for f in feats]\<close> over a Stream of Arrays;
  a Stream nested inside has no \<open>shape\<close> attribute. Iterating over a single Array instead of a
  Stream would yield three-dimensional slices, which are no shape descriptors; that case is
  reported as a \<open>TypeError\<close> here.\<close>

fun shape_of :: "val \<Rightarrow> error + shape" where
  "shape_of (T s) = Inr s"
| "shape_of (L xs) = Inl TypeError"

fun shapes_of :: "val \<Rightarrow> error + shape list" where
  "shapes_of (T s) = Inl TypeError"
| "shapes_of (L fs) = err_map shape_of fs"


section \<open>Components of layers.py and containers.py on values\<close>

subsection \<open>SplitTensor on the channel axis\<close>

text \<open>
  Modelled from the spec: \<open>layers.SplitTensor\<close> (layers.py is not among the sources).
  Section 4.4: the input is one Array with a channel axis of size C, the configuration is a
  partition of C into contiguous chunk sizes, the output is a Stream of Arrays, each holding
  one chunk, in the channel order of the input; it is an error if the chunk sizes do not sum
  to C. The Array is seen along its channel axis: a list of its C channel slices.
\<close>

fun chunks :: "nat list \<Rightarrow> 'a list \<Rightarrow> 'a list list" where
  "chunks [] xs = []"
| "chunks (k # ks) xs = take k xs # chunks ks (drop k xs)"

definition SplitTensor_channels :: "nat list \<Rightarrow> 'a list \<Rightarrow> error + 'a list list" where
  "SplitTensor_channels sizes x =
     (if sum_list sizes = length x then Inr (chunks sizes x) else Inl ConfigurationError)"

subsection \<open>SequentialMultiInputMultiOutput\<close>

text \<open>
  Modelled from the spec: \<open>containers.SequentialMultiInputMultiOutput\<close> (containers.py is not
  among the sources). Section 4.3: the container is built from N stages and called with an
  external Stream of length N (another length is an arity error). The accumulator starts as
  the first external element, which is output 0. For i from 1 to N-1 the accumulator is
  advanced by stage i-1 from the current accumulator and external input i, and the new
  accumulator is output i. How a stage combines the two is the stage's own policy, so a stage
  is a function of the accumulator and the external input that may fail; a failure is
  propagated unmodified.
\<close>

fun smimo_fold :: "('a \<Rightarrow> 'a \<Rightarrow> error + 'a) list \<Rightarrow> 'a \<Rightarrow> 'a list \<Rightarrow> error + 'a list" where
  "smimo_fold stages acc [] = Inr []"
| "smimo_fold [] acc (x # xs) = Inl ArityError"
| "smimo_fold (s # stages) acc (x # xs) =
     (case s acc x of
        Inl e \<Rightarrow> Inl e
      | Inr a \<Rightarrow> (case smimo_fold stages a xs of Inl e \<Rightarrow> Inl e | Inr ys \<Rightarrow> Inr (a # ys)))"

definition SequentialMultiInputMultiOutput_forward ::
    "('a \<Rightarrow> 'a \<Rightarrow> error + 'a) list \<Rightarrow> 'a list \<Rightarrow> error + 'a list" where
  "SequentialMultiInputMultiOutput_forward stages xs =
     (if length xs \<noteq> length stages then Inl ArityError
      else case xs of
             [] \<Rightarrow> Inr []
           | x # rest \<Rightarrow>
               (case smimo_fold stages x rest of Inl e \<Rightarrow> Inl e | Inr ys \<Rightarrow> Inr (x # ys)))"


section \<open>Shape contracts of the torch kernels\<close>

text \<open>
  \<open>old_conv_args\<close> of the source is the record \<open>conv_args\<close>; a \<open>torch.nn.Conv2d\<close> adds its
  input channel count and the shape of its weight tensor (the source assigns to
  \<open>conv1.weight.data\<close>). Kernel size, stride, padding and dilation are pairs, as torch
  stores them.
\<close>

record conv_args =
  out_channels :: nat
  kernel_size :: "nat \<times> nat"
  stride :: "nat \<times> nat"
  padding :: "nat \<times> nat"
  dilation :: "nat \<times> nat"
  groups :: nat
  bias :: bool

record conv2d = conv_args +
  in_channels :: nat
  weight :: "nat list"

definition weight_shape :: "nat \<Rightarrow> conv_args \<Rightarrow> nat list" where
  "weight_shape in_c a =
     [out_channels a, in_c div groups a, fst (kernel_size a), snd (kernel_size a)]"

text \<open>\<open>nn.Conv2d(in_channels=c, **args)\<close>: a fresh weight of the shape the arguments give.\<close>

definition nn_Conv2d_args :: "nat \<Rightarrow> conv_args \<Rightarrow> conv2d" where
  "nn_Conv2d_args in_c a =
     \<lparr>out_channels = out_channels a, kernel_size = kernel_size a, stride = stride a,
      padding = padding a, dilation = dilation a, groups = groups a, bias = bias a,
      in_channels = in_c, weight = weight_shape in_c a\<rparr>"

text \<open>\<open>nn.Conv2d(i, o, kernel_size=k, padding=p)\<close> with torch's defaults stride 1, dilation 1,
  groups 1 and a bias; the source's \<open>kernel_size=1\<close> leaves the padding at its default 0.\<close>

definition nn_Conv2d :: "nat \<Rightarrow> nat \<Rightarrow> nat \<Rightarrow> nat \<Rightarrow> conv2d" where
  "nn_Conv2d in_c out_c k p =
     nn_Conv2d_args in_c
       \<lparr>out_channels = out_c, kernel_size = (k, k), stride = (1, 1), padding = (p, p),
        dilation = (1, 1), groups = 1, bias = True\<rparr>"

text \<open>One spatial axis of a convolution: torch refuses a stride of 0 and a kernel that is
  larger than the padded input.\<close>

definition conv_out :: "nat \<Rightarrow> nat \<Rightarrow> nat \<Rightarrow> nat \<Rightarrow> nat \<Rightarrow> error + nat" where
  "conv_out n k s p d =
     (if s = 0 \<or> k = 0 \<or> n + 2 * p < d * (k - 1) + 1 then Inl RuntimeError
      else Inr ((n + 2 * p - d * (k - 1) - 1) div s + 1))"

fun conv2d_forward :: "conv2d \<Rightarrow> val \<Rightarrow> error + val" where
  "conv2d_forward c (L xs) = Inl TypeError"
| "conv2d_forward c (T (n, ci, h, w)) =
     (if groups c = 0 \<or> weight c \<noteq> weight_shape (in_channels c) (conv_args.truncate c)
         \<or> ci \<noteq> in_channels c
      then Inl RuntimeError
      else err_bind
             (conv_out h (fst (kernel_size c)) (fst (stride c)) (fst (padding c))
                (fst (dilation c)))
             (\<lambda>h'. err_bind
                (conv_out w (snd (kernel_size c)) (snd (stride c)) (snd (padding c))
                   (snd (dilation c)))
                (\<lambda>w'. Inr (T (n, out_channels c, h', w')))))"

text \<open>\<open>nn.GroupNorm(num_groups=g, num_channels=c)\<close>: its forward pass keeps the shape and
  wants \<open>c\<close> channels. \<open>nn.ReLU\<close> keeps the shape.\<close>

fun group_norm_forward :: "nat \<Rightarrow> nat \<Rightarrow> val \<Rightarrow> error + val" where
  "group_norm_forward g c (L xs) = Inl TypeError"
| "group_norm_forward g c (T (n, ci, h, w)) =
     (if ci \<noteq> c then Inl RuntimeError else Inr (T (n, ci, h, w)))"

fun relu_forward :: "val \<Rightarrow> error + val" where
  "relu_forward (L xs) = Inl TypeError"
| "relu_forward (T s) = Inr (T s)"


section \<open>Stages of layers.py and containers.py on shapes\<close>

text \<open>
  A Stage is a transformation of a value that may fail. The definitions of this section are
  modelled from the spec (layers.py and containers.py are not among the sources); each one
  names the component and the sentence it follows.
\<close>

type_synonym stage = "val \<Rightarrow> error + val"

text \<open>Modelled from the spec: \<open>layers.Interpolate\<close>. Section 4.4: configured with either a
  target (height, width) or a scale factor; the output is the input resampled to the target
  size, with the same batch and channel count. The source always passes the bilinear mode
  with aligned corners, which does not bear on the shape.\<close>

fun Interpolate_forward :: "(nat \<times> nat) option \<Rightarrow> nat option \<Rightarrow> val \<Rightarrow> error + val" where
  "Interpolate_forward sz sc (L xs) = Inl TypeError"
| "Interpolate_forward (Some (H, W)) None (T (n, c, h, w)) = Inr (T (n, c, H, W))"
| "Interpolate_forward None (Some k) (T (n, c, h, w)) = Inr (T (n, c, h * k, w * k))"
| "Interpolate_forward None None (T s) = Inl ValueError"
| "Interpolate_forward (Some sz) (Some k) (T s) = Inl ValueError"

text \<open>Modelled from the spec: \<open>layers.Reverse\<close>. Section 4.4: the same Stream with the
  element order reversed.\<close>

fun Reverse_forward :: "val \<Rightarrow> error + val" where
  "Reverse_forward (L xs) = Inr (L (rev xs))"
| "Reverse_forward (T s) = Inl TypeError"

text \<open>Modelled from the spec: \<open>layers.SelectOne\<close>. Section 4.4: the single Array at position
  k of the Stream; an error if k is out of range.\<close>

fun SelectOne_forward :: "nat \<Rightarrow> val \<Rightarrow> error + val" where
  "SelectOne_forward k (L xs) = (if k < length xs then Inr (xs ! k) else Inl IndexError)"
| "SelectOne_forward k (T s) = Inl TypeError"

text \<open>Modelled from the spec: the elementwise sum of two Arrays, as \<open>AddTensors\<close>,
  \<open>AddAcross\<close> and \<open>Residual\<close> use it. Section 7: no silent shape coercion, so the two
  shapes are identical, or it is a shape error.\<close>

fun add2 :: "val \<Rightarrow> val \<Rightarrow> error + val" where
  "add2 (T a) (T b) = (if a = b then Inr (T a) else Inl ShapeError)"
| "add2 (L xs) y = Inl TypeError"
| "add2 (T a) (L ys) = Inl TypeError"

text \<open>Modelled from the spec: \<open>layers.AddTensors\<close>. Section 4.4: the input is a Stream of
  Arrays of identical shape, the output is their elementwise sum; an error on a shape
  mismatch. An empty Stream has no Array to return and is reported as a shape error.\<close>

fun add_all :: "val \<Rightarrow> val list \<Rightarrow> error + val" where
  "add_all acc [] = Inr acc"
| "add_all acc (x # xs) = err_bind (add2 acc x) (\<lambda>a. add_all a xs)"

fun AddTensors_forward :: "val \<Rightarrow> error + val" where
  "AddTensors_forward (T s) = Inl TypeError"
| "AddTensors_forward (L []) = Inl ShapeError"
| "AddTensors_forward (L (L ys # xs)) = Inl TypeError"
| "AddTensors_forward (L (T s # xs)) = add_all (T s) xs"

text \<open>Modelled from the spec: \<open>layers.AddAcross\<close>. Section 4.4: the input is two co-indexed
  Streams of equal length, the output is the Stream of their pairwise sums; an error on a
  length or shape mismatch.\<close>

fun add_pairs :: "val list \<Rightarrow> val list \<Rightarrow> error + val list" where
  "add_pairs [] [] = Inr []"
| "add_pairs (x # xs) (y # ys) =
     err_bind (add2 x y) (\<lambda>z. err_bind (add_pairs xs ys) (\<lambda>zs. Inr (z # zs)))"
| "add_pairs [] (y # ys) = Inl ArityError"
| "add_pairs (x # xs) [] = Inl ArityError"

fun AddAcross_forward :: "val \<Rightarrow> error + val" where
  "AddAcross_forward (L [L xs, L ys]) = err_bind (add_pairs xs ys) (\<lambda>zs. Inr (L zs))"
| "AddAcross_forward v = Inl ArityError"

text \<open>Modelled from the spec: \<open>layers.SplitTensor\<close> on shapes. Section 4.4, as
  \<open>SplitTensor_channels\<close>: the chunk sizes partition the axis \<open>dim\<close> of the Array (the source
  passes \<open>dim=1\<close>, the channel axis), and each chunk keeps the other three axes.\<close>

fun SplitTensor_forward :: "nat list \<Rightarrow> nat \<Rightarrow> val \<Rightarrow> error + val" where
  "SplitTensor_forward sizes dim (L xs) = Inl TypeError"
| "SplitTensor_forward sizes dim (T (n, c, h, w)) =
     (if dim = 0 then
        (if sum_list sizes = n then Inr (L (map (\<lambda>k. T (k, c, h, w)) sizes))
         else Inl ConfigurationError)
      else if dim = 1 then
        (if sum_list sizes = c then Inr (L (map (\<lambda>k. T (n, k, h, w)) sizes))
         else Inl ConfigurationError)
      else if dim = 2 then
        (if sum_list sizes = h then Inr (L (map (\<lambda>k. T (n, c, k, w)) sizes))
         else Inl ConfigurationError)
      else if dim = 3 then
        (if sum_list sizes = w then Inr (L (map (\<lambda>k. T (n, c, h, k)) sizes))
         else Inl ConfigurationError)
      else Inl IndexError)"

text \<open>Modelled from the spec: \<open>layers.Residual\<close>. Section 4.4: wraps one Stage f; the input
  is one Array x and the output is x + f(x) elementwise, where f(x) has to have the shape of
  x already.\<close>

fun Residual_forward :: "stage \<Rightarrow> val \<Rightarrow> error + val" where
  "Residual_forward f (T s) = err_bind (f (T s)) (\<lambda>y. add2 (T s) y)"
| "Residual_forward f (L xs) = Inl TypeError"

text \<open>Modelled from the spec: \<open>containers.Parallel\<close>. Section 4.1: built from N independent
  Stages; an input Stream of length N gives the Stream of length N with
  output[i] = branch[i](input[i]); a single Array, or a Stream of another length, is an arity
  error.\<close>

fun par_apply :: "stage list \<Rightarrow> val list \<Rightarrow> error + val list" where
  "par_apply [] [] = Inr []"
| "par_apply (b # bs) (x # xs) =
     (case b x of
        Inl e \<Rightarrow> Inl e
      | Inr y \<Rightarrow> (case par_apply bs xs of Inl e \<Rightarrow> Inl e | Inr ys \<Rightarrow> Inr (y # ys)))"
| "par_apply [] (x # xs) = Inl ArityError"
| "par_apply (b # bs) [] = Inl ArityError"

fun Parallel_forward :: "stage list \<Rightarrow> val \<Rightarrow> error + val" where
  "Parallel_forward bs (T s) = Inl ArityError"
| "Parallel_forward bs (L xs) =
     (if length xs \<noteq> length bs then Inl ArityError
      else err_bind (par_apply bs xs) (\<lambda>ys. Inr (L ys)))"

text \<open>Modelled from the spec: \<open>containers.SequentialMultiOutput\<close>. Section 4.2: built from N
  stages; stage 0 consumes the input and produces output 0, stage i consumes output i-1 and
  produces output i, and all N results are returned.\<close>

fun smo_chain :: "stage list \<Rightarrow> val \<Rightarrow> error + val list" where
  "smo_chain [] x = Inr []"
| "smo_chain (s # ss) x =
     (case s x of
        Inl e \<Rightarrow> Inl e
      | Inr y \<Rightarrow> (case smo_chain ss y of Inl e \<Rightarrow> Inl e | Inr ys \<Rightarrow> Inr (y # ys)))"

definition SequentialMultiOutput_forward :: "stage list \<Rightarrow> val \<Rightarrow> error + val" where
  "SequentialMultiOutput_forward ss x = err_bind (smo_chain ss x) (\<lambda>ys. Inr (L ys))"

text \<open>\<open>torch.nn.Sequential\<close>: each stage consumes the result of the one before; the first
  exception ends the call.\<close>

fun Sequential_forward :: "stage list \<Rightarrow> val \<Rightarrow> error + val" where
  "Sequential_forward [] x = Inr x"
| "Sequential_forward (s # ss) x =
     (case s x of Inl e \<Rightarrow> Inl e | Inr y \<Rightarrow> Sequential_forward ss y)"

text \<open>The call of a \<open>SequentialMultiInputMultiOutput\<close> on a value: its input is a Stream.\<close>

fun smimo_forward :: "(val \<Rightarrow> val \<Rightarrow> error + val) list \<Rightarrow> val \<Rightarrow> error + val" where
  "smimo_forward stages (T s) = Inl ArityError"
| "smimo_forward stages (L xs) =
     err_bind (SequentialMultiInputMultiOutput_forward stages xs) (\<lambda>ys. Inr (L ys))"


section \<open>Modules\<close>

text \<open>
  The objects that fpn.py builds: torch's own modules, the classes of layers.py and
  containers.py, the two feature extractors of fpn.py, and \<open>Opaque\<close>, a part of a pretrained
  network known by its name only. \<open>FPN\<close>, \<open>PanopticFPN\<close> and \<open>PANetFPN\<close> are subclasses of
  \<open>nn.Sequential\<close> without a forward method of their own, so an instance is a \<open>Sequential\<close>
  of its layers.
\<close>

datatype module =
    Conv2d conv2d
  | GroupNorm nat nat
  | ReLU
  | Identity
  | Opaque string
  | Sequential "module list"
  | Parallel "module list"
  | SequentialMultiOutput "module list"
  | SequentialMultiInputMultiOutput "module list"
  | Residual module
  | Interpolate "(nat \<times> nat) option" "nat option"
  | Reverse
  | AddTensors
  | SelectOne nat
  | AddAcross
  | SplitTensor "nat list" nat
  | EfficientNetFeatureMapsExtractor string
  | ResNetFeatureMapsExtractor "string option" module

text \<open>
  What the sources do not determine is a parameter of the evaluation:
  \<^item> \<open>opaque_forward\<close>: the forward pass of a pretrained part, given its name, the training
    flag and the input;
  \<^item> \<open>stage_merge\<close>: how a stage inside a \<open>SequentialMultiInputMultiOutput\<close> advances the
    accumulator with an external input, given the stage, the training flag, the accumulator
    and the external input. Section 4.3 delegates this policy to the stage itself, and the
    code of the stages' two-input behaviour is in layers.py.
\<close>

record env =
  opaque_forward :: "string \<Rightarrow> bool \<Rightarrow> val \<Rightarrow> error + val"
  stage_merge :: "module \<Rightarrow> bool \<Rightarrow> val \<Rightarrow> val \<Rightarrow> error + val"

text \<open>
  \<open>run E tr m x\<close> is the call \<open>m(x)\<close> with the module in training mode \<open>tr\<close>.
  \<open>EfficientNetFeatureMapsExtractor.forward\<close> returns the list of the endpoints of the
  network. \<open>ResNetFeatureMapsExtractor.forward\<close> passes \<open>x\<close> to its container unless the
  mode is \<open>'fusion'\<close>, where it unpacks \<open>x, inps = x\<close> (a \<open>ValueError\<close> unless \<open>x\<close> has two
  elements) and calls the container on \<open>(x, *inps)\<close>; \<open>inps\<close> is a Stream there, and an
  Array in its place is reported as a \<open>TypeError\<close>.
\<close>

fun fusion_input :: "val \<Rightarrow> error + val" where
  "fusion_input (L [x, L inps]) = Inr (L (x # inps))"
| "fusion_input (L [x, T s]) = Inl TypeError"
| "fusion_input v = Inl ValueError"

primrec run :: "env \<Rightarrow> bool \<Rightarrow> module \<Rightarrow> val \<Rightarrow> error + val" where
  "run E tr (Conv2d c) x = conv2d_forward c x"
| "run E tr (GroupNorm g c) x = group_norm_forward g c x"
| "run E tr ReLU x = relu_forward x"
| "run E tr Identity x = Inr x"
| "run E tr (Opaque name) x = opaque_forward E name tr x"
| "run E tr (Sequential ms) x = Sequential_forward (map (\<lambda>m. run E tr m) ms) x"
| "run E tr (Parallel ms) x = Parallel_forward (map (\<lambda>m. run E tr m) ms) x"
| "run E tr (SequentialMultiOutput ms) x =
     SequentialMultiOutput_forward (map (\<lambda>m. run E tr m) ms) x"
| "run E tr (SequentialMultiInputMultiOutput ms) x =
     smimo_forward (map (\<lambda>m. stage_merge E m tr) ms) x"
| "run E tr (Residual f) x = Residual_forward (run E tr f) x"
| "run E tr (Interpolate sz sc) x = Interpolate_forward sz sc x"
| "run E tr Reverse x = Reverse_forward x"
| "run E tr AddTensors x = AddTensors_forward x"
| "run E tr (SelectOne k) x = SelectOne_forward k x"
| "run E tr AddAcross x = AddAcross_forward x"
| "run E tr (SplitTensor sizes dim) x = SplitTensor_forward sizes dim x"
| "run E tr (EfficientNetFeatureMapsExtractor name) x = opaque_forward E name tr x"
| "run E tr (ResNetFeatureMapsExtractor mode m) x =
     (if mode \<noteq> Some ''fusion'' then run E tr m x
      else err_bind (fusion_input x) (\<lambda>y. run E tr m y))"


section \<open>fpn.py: the pyramid heads\<close>

text \<open>\<open>FPN.__init__\<close>: \<open>s[1]\<close> is the channel count of a shape and \<open>s[-2:]\<close> its height and
  width; \<open>in_feats_shapes[::-1]\<close> is the reversed list.\<close>

definition FPN :: "shape list \<Rightarrow> nat \<Rightarrow> nat \<Rightarrow> module" where
  "FPN in_feats_shapes hidden_channels out_c =
     (let in_convs = Parallel
            (map (\<lambda>s. Conv2d (nn_Conv2d (chans s) hidden_channels 1 0)) (rev in_feats_shapes));
          upsample_and_add = SequentialMultiInputMultiOutput
            (map (\<lambda>s. Residual (Interpolate (Some (spatial s)) None)) (rev in_feats_shapes));
          out_convs = Parallel
            (map (\<lambda>s. Conv2d (nn_Conv2d hidden_channels out_c 3 1)) (rev in_feats_shapes));
          layers = [Reverse, in_convs, upsample_and_add, out_convs, Reverse]
      in Sequential layers)"

text \<open>\<open>nn.GroupNorm(num_channels=c, num_groups=g)\<close> raises a \<open>ValueError\<close> at construction
  unless \<open>c % g == 0\<close>; Python's \<open>%\<close> itself raises for \<open>g = 0\<close>.\<close>

definition nn_GroupNorm :: "nat \<Rightarrow> nat \<Rightarrow> error + module" where
  "nn_GroupNorm num_channels num_groups =
     (if num_groups = 0 then Inl ZeroDivisionError
      else if num_channels mod num_groups \<noteq> 0 then Inl ValueError
      else Inr (GroupNorm num_groups num_channels))"

text \<open>\<open>PanopticFPN._upsample_once(in_c, out_c=None, scale=2, size=None, g=32)\<close>.\<close>

definition upsample_once ::
    "nat \<Rightarrow> nat option \<Rightarrow> nat \<Rightarrow> (nat \<times> nat) option \<Rightarrow> nat \<Rightarrow> error + module" where
  "upsample_once in_c out_c scale sz g =
     (let oc = (case out_c of None \<Rightarrow> in_c | Some c \<Rightarrow> c) in
      err_bind (nn_GroupNorm oc g) (\<lambda>norm.
        let layers = [Conv2d (nn_Conv2d in_c oc 3 1), norm, ReLU] in
        if scale = 1 then Inr (Sequential layers)
        else
          let interp = (case sz of
                          None \<Rightarrow> Interpolate None (Some scale)
                        | Some hw \<Rightarrow> Interpolate (Some hw) None)
          in Inr (Sequential (layers @ [interp]))))"

text \<open>\<open>PanopticFPN._upsample_feat(c, num_up, size, g=32)\<close>; \<open>range(num_up - 1)\<close> is empty
  for \<open>num_up \<le> 1\<close>.\<close>

definition upsample_feat :: "nat \<Rightarrow> int \<Rightarrow> nat \<times> nat \<Rightarrow> nat \<Rightarrow> error + module" where
  "upsample_feat c num_up sz g =
     (if num_up = 0 then upsample_once c (Some (c div 2)) 1 None g
      else
        err_bind (err_map (\<lambda>_. upsample_once c None 2 None g) [0..<nat (num_up - 1)])
          (\<lambda>blocks. err_bind (upsample_once c (Some (c div 2)) 2 (Some sz) g)
             (\<lambda>final. Inr (Sequential (blocks @ [final])))))"

text \<open>\<open>PanopticFPN._make_upsamplers(c, size, num_ups, g=32)\<close>.\<close>

definition make_upsamplers :: "nat \<Rightarrow> nat \<times> nat \<Rightarrow> int list \<Rightarrow> nat \<Rightarrow> error + module" where
  "make_upsamplers c sz num_ups g =
     err_bind (err_map (\<lambda>u. upsample_feat c u sz g) num_ups) (\<lambda>us. Inr (Parallel us))"

text \<open>\<open>PanopticFPN.__init__\<close>: the list \<open>layers\<close> it passes to \<open>nn.Sequential\<close>.
  \<open>in_feats_shapes[0]\<close> raises an \<open>IndexError\<close> on an empty list; \<open>num_ups=None\<close> stands for
  \<open>list(range(len(in_feats_shapes)))\<close>.\<close>

definition PanopticFPN_layers ::
    "shape list \<Rightarrow> nat \<Rightarrow> nat \<Rightarrow> int list option \<Rightarrow> nat \<Rightarrow> error + module list" where
  "PanopticFPN_layers in_feats_shapes hidden_channels out_c num_ups num_groups_for_norm =
     (let ups = (case num_ups of
                   None \<Rightarrow> map int [0..<length in_feats_shapes]
                 | Some us \<Rightarrow> us);
          in_convs = Parallel
            (map (\<lambda>s. Conv2d (nn_Conv2d (chans s) hidden_channels 1 0)) in_feats_shapes)
      in case in_feats_shapes of
           [] \<Rightarrow> Inl IndexError
         | s0 # rest \<Rightarrow>
             err_bind (make_upsamplers hidden_channels (spatial s0) ups num_groups_for_norm)
               (\<lambda>upsamplers.
                  Inr [in_convs, upsamplers, AddTensors,
                       Conv2d (nn_Conv2d (hidden_channels div 2) out_c 1 0)]))"

definition PanopticFPN ::
    "shape list \<Rightarrow> nat \<Rightarrow> nat \<Rightarrow> int list option \<Rightarrow> nat \<Rightarrow> error + module" where
  "PanopticFPN in_feats_shapes hidden_channels out_c num_ups num_groups_for_norm =
     err_bind
       (PanopticFPN_layers in_feats_shapes hidden_channels out_c num_ups num_groups_for_norm)
       (\<lambda>layers. Inr (Sequential layers))"

text \<open>\<open>PANetFPN.__init__\<close>.\<close>

definition PANetFPN :: "shape list \<Rightarrow> nat \<Rightarrow> nat \<Rightarrow> module" where
  "PANetFPN in_feats_shapes hidden_channels out_c =
     (let fpn1 = FPN in_feats_shapes hidden_channels hidden_channels;
          in_feats_shapes2 = map (\<lambda>(n, c, h, w). (n, hidden_channels, h, w)) in_feats_shapes;
          fpn2 = FPN (rev in_feats_shapes2) hidden_channels out_c;
          layers = [fpn1, Reverse, fpn2, Reverse]
      in Sequential layers)"


section \<open>fpn.py: the shape probe\<close>

text \<open>
  An Array with its contents, for the input of the probe. \<open>torch.empty\<close> allocates without
  initialising: the contents are whatever the memory \<open>mem\<close> holds. \<open>torch_zeros\<close> is the
  all-zero Array of a shape.
\<close>

record 'a tensor =
  tshape :: shape
  tdata :: "'a list"

fun numel :: "shape \<Rightarrow> nat" where
  "numel (n, c, h, w) = n * c * h * w"

definition torch_empty :: "(nat \<Rightarrow> 'a) \<Rightarrow> shape \<Rightarrow> 'a tensor" where
  "torch_empty mem s = \<lparr>tshape = s, tdata = map mem [0..<numel s]\<rparr>"

definition torch_zeros :: "shape \<Rightarrow> ('a::zero) tensor" where
  "torch_zeros s = \<lparr>tshape = s, tdata = replicate (numel s) 0\<rparr>"

text \<open>
  The state that \<open>_get_shapes\<close> reads and writes: the flag \<open>m.training\<close> of the module it is
  given, torch's global gradient mode, and, as a record of what was evaluated, the list of
  the forward passes of \<open>m\<close>: the training flag and the gradient mode they ran in, and their
  input. The flag is the one of \<open>m\<close> itself, which \<open>_get_shapes\<close> reads; \<open>m.eval()\<close> and
  \<open>m.train(state)\<close> write the same value to the submodules of \<open>m\<close> as well, whose own flags
  are not part of this state.
\<close>

record 'a world =
  training :: bool
  grad_enabled :: bool
  calls :: "(bool \<times> bool \<times> 'a tensor) list"

text \<open>
  \<open>_get_shapes(m, ch, sz)\<close>. The module is its forward pass, a function of its training flag
  and its input. \<open>m.eval()\<close> clears the flag, \<open>with torch.no_grad()\<close> switches the gradient
  mode off and puts it back when the block is left, also by an exception; \<open>m.train(state)\<close>
  follows the block, so an exception of the forward pass leaves the function before it.
\<close>

definition get_shapes ::
    "(nat \<Rightarrow> 'a) \<Rightarrow> (bool \<Rightarrow> 'a tensor \<Rightarrow> error + val) \<Rightarrow> 'a world \<Rightarrow> nat \<Rightarrow> nat
      \<Rightarrow> (error + shape list) \<times> 'a world" where
  "get_shapes mem m w ch sz =
     (let state = training w;
          w1 = w\<lparr>training := False\<rparr>;
          prev = grad_enabled w1;
          w2 = w1\<lparr>grad_enabled := False\<rparr>;
          x = torch_empty mem (1, ch, sz, sz);
          r = m (training w2) x;
          w3 = w2\<lparr>calls := calls w2 @ [(training w2, grad_enabled w2, x)]\<rparr>;
          w4 = w3\<lparr>grad_enabled := prev\<rparr>
      in case r of
           Inl e \<Rightarrow> (Inl e, w4)
         | Inr feats \<Rightarrow> (shapes_of feats, w4\<lparr>training := state\<rparr>))"


section \<open>fpn.py: backbones and factories\<close>

text \<open>The forward pass of a module of this file as \<open>_get_shapes\<close> calls it.\<close>

definition forward :: "env \<Rightarrow> module \<Rightarrow> bool \<Rightarrow> 'a tensor \<Rightarrow> error + val" where
  "forward E m tr x = run E tr m (T (tshape x))"

text \<open>A torchvision ResNet, as far as the source reads it: \<open>conv1\<close> is a convolution, the
  other parts are used as they are.\<close>

record resnet =
  conv1 :: conv2d
  bn1 :: module
  relu :: module
  maxpool :: module
  layer1 :: module
  layer2 :: module
  layer3 :: module
  layer4 :: module

text \<open>\<open>ResNetFeatureMapsExtractor.__init__(model, mode)\<close>.\<close>

definition ResNetFeatureMapsExtractor_init :: "resnet \<Rightarrow> string option \<Rightarrow> module" where
  "ResNetFeatureMapsExtractor_init model mode =
     (let stem = Sequential [Conv2d (conv1 model), bn1 model, relu model, maxpool model];
          layers = [layer1 model, layer2 model, layer3 model, layer4 model]
      in if mode = Some ''fusion''
         then ResNetFeatureMapsExtractor mode
                (SequentialMultiInputMultiOutput
                   (stem # map (\<lambda>m. Sequential [AddTensors, m]) layers))
         else ResNetFeatureMapsExtractor mode (SequentialMultiOutput (stem # layers)))"

text \<open>\<open>make_fusion_resnet_backbone\<close>. The loop that copies the pretrained weights writes
  values into slices of \<open>new_conv.weight.data\<close> and leaves its shape as it is.\<close>

definition make_fusion_resnet_backbone ::
    "resnet \<Rightarrow> resnet \<Rightarrow> nat \<Rightarrow> conv2d \<Rightarrow> conv_args \<Rightarrow> module" where
  "make_fusion_resnet_backbone old_resnet new_resnet new_channels old_conv old_conv_args =
     (let new_conv = nn_Conv2d_args new_channels old_conv_args;
          new_resnet' = new_resnet\<lparr>conv1 := new_conv\<rparr>
      in Sequential
           [SplitTensor [3, new_channels] 1,
            Parallel [Identity, ResNetFeatureMapsExtractor_init new_resnet' None],
            ResNetFeatureMapsExtractor_init old_resnet (Some ''fusion'')])"

text \<open>Lines 226 to 250 of \<open>make_segm_fpn_efficientnet\<close> and lines 330 to 354 of
  \<open>make_segm_fpn_resnet\<close>, which are the same: the choice of the head by \<open>fpn_type\<close>.\<close>

definition select_fpn :: "string \<Rightarrow> shape list \<Rightarrow> nat \<Rightarrow> nat \<Rightarrow> error + module" where
  "select_fpn fpn_type feats_shapes fpn_channels num_classes =
     (if fpn_type = ''fpn'' then
        Inr (Sequential [FPN feats_shapes fpn_channels num_classes, SelectOne 0])
      else if fpn_type = ''panoptic'' then
        PanopticFPN feats_shapes fpn_channels num_classes None 32
      else if fpn_type = ''panet+fpn'' then
        (let feats_shapes2 = map (\<lambda>(n, c, h, w). (n, fpn_channels, h, w)) feats_shapes
         in Inr (Sequential
                   [PANetFPN feats_shapes fpn_channels fpn_channels,
                    FPN feats_shapes2 fpn_channels num_classes,
                    SelectOne 0]))
      else Inl NotImplementedError)"

text \<open>The part that the two factories share after the backbone is built: the probe of a
  fresh backbone (a new \<open>nn.Module\<close> is in training mode), the choice of the head, and the
  assembly of the model.\<close>

definition assemble ::
    "(nat \<Rightarrow> 'a) \<Rightarrow> env \<Rightarrow> 'a world \<Rightarrow> module \<Rightarrow> string \<Rightarrow> nat \<times> nat \<Rightarrow> nat \<Rightarrow> nat \<Rightarrow> nat
      \<Rightarrow> (error + module) \<times> 'a world" where
  "assemble mem E w backbone fpn_type out_size fpn_channels num_classes in_chans =
     (case get_shapes mem (forward E backbone) (w\<lparr>training := True\<rparr>) in_chans (fst out_size) of
        (Inl e, w') \<Rightarrow> (Inl e, w')
      | (Inr feats_shapes, w') \<Rightarrow>
          (case select_fpn fpn_type feats_shapes fpn_channels num_classes of
             Inl e \<Rightarrow> (Inl e, w')
           | Inr fpn \<Rightarrow>
               (Inr (Sequential [backbone, fpn, Interpolate (Some out_size) None]), w')))"

text \<open>\<open>_load_efficientnet\<close> asks \<open>torch.hub\<close> for a network; \<open>hub\<close> is that collaborator: it
  answers with the name of the loaded network or fails.\<close>

definition load_efficientnet ::
    "(string \<Rightarrow> nat \<Rightarrow> string \<Rightarrow> nat \<Rightarrow> error + string) \<Rightarrow> string \<Rightarrow> nat \<Rightarrow> string \<Rightarrow> nat
      \<Rightarrow> error + string" where
  "load_efficientnet hub name num_classes pretrained in_chans =
     hub name num_classes pretrained in_chans"

text \<open>Lines 206 to 223 of \<open>make_segm_fpn_efficientnet\<close>: the backbone. The first network is
  loaded with the default \<open>in_channels=3\<close> of \<open>_load_efficientnet\<close>.\<close>

definition efficientnet_backbone ::
    "(string \<Rightarrow> nat \<Rightarrow> string \<Rightarrow> nat \<Rightarrow> error + string) \<Rightarrow> string \<Rightarrow> nat \<Rightarrow> string \<Rightarrow> nat
      \<Rightarrow> error + module" where
  "efficientnet_backbone hub name num_classes pretrained in_chans =
     err_bind (load_efficientnet hub name num_classes pretrained 3) (\<lambda>effnet.
       if in_chans > 3 then
         (let new_channels = in_chans - 3 in
          err_bind (load_efficientnet hub name num_classes pretrained new_channels)
            (\<lambda>new_effnet.
               Inr (Sequential
                      [SplitTensor [3, new_channels] 1,
                       Parallel [EfficientNetFeatureMapsExtractor effnet,
                                 EfficientNetFeatureMapsExtractor new_effnet],
                       AddAcross])))
       else Inr (EfficientNetFeatureMapsExtractor effnet))"

text \<open>\<open>make_segm_fpn_efficientnet\<close>.\<close>

definition make_segm_fpn_efficientnet ::
    "(string \<Rightarrow> nat \<Rightarrow> string \<Rightarrow> nat \<Rightarrow> error + string) \<Rightarrow> (nat \<Rightarrow> 'a) \<Rightarrow> env \<Rightarrow> 'a world
      \<Rightarrow> string \<Rightarrow> string \<Rightarrow> nat \<times> nat \<Rightarrow> nat \<Rightarrow> nat \<Rightarrow> string \<Rightarrow> nat
      \<Rightarrow> (error + module) \<times> 'a world" where
  "make_segm_fpn_efficientnet hub mem E w name fpn_type out_size fpn_channels num_classes
       pretrained in_chans =
     (case efficientnet_backbone hub name num_classes pretrained in_chans of
        Inl e \<Rightarrow> (Inl e, w)
      | Inr backbone \<Rightarrow>
          assemble mem E w backbone fpn_type out_size fpn_channels num_classes in_chans)"

text \<open>\<open>old_conv.weight.data[:, k]\<close>: the index \<open>k\<close> on the second axis removes that axis,
  and is an \<open>IndexError\<close> when the axis is missing or shorter.\<close>

fun select_axis1 :: "nat list \<Rightarrow> nat \<Rightarrow> error + nat list" where
  "select_axis1 (o1 # i # rest) k = (if k < i then Inr (o1 # rest) else Inl IndexError)"
| "select_axis1 ws k = Inl IndexError"

text \<open>Lines 293 to 327 of \<open>make_segm_fpn_resnet\<close>: the backbone. \<open>zoo\<close> is the dictionary
  \<open>tv.models.resnet.__dict__\<close>: a name it does not hold is a \<open>KeyError\<close>, and a constructor
  may fail.\<close>

definition resnet_backbone ::
    "(string \<rightharpoonup> (bool \<Rightarrow> error + resnet)) \<Rightarrow> string \<Rightarrow> bool \<Rightarrow> nat \<Rightarrow> error + module" where
  "resnet_backbone zoo name pretrained in_chans =
     (case zoo name of
        None \<Rightarrow> Inl KeyError
      | Some resnet_constructor \<Rightarrow>
          err_bind (resnet_constructor pretrained) (\<lambda>resnet.
            if in_chans = 3 then Inr (ResNetFeatureMapsExtractor_init resnet None)
            else
              let old_conv = conv1 resnet;
                  old_conv_args = conv_args.truncate old_conv
              in if \<not> pretrained then
                   Inr (ResNetFeatureMapsExtractor_init
                          (resnet\<lparr>conv1 := nn_Conv2d_args in_chans old_conv_args\<rparr>) None)
                 else if in_chans > 3 then
                   (let new_channels = in_chans - 3 in
                    err_bind (resnet_constructor pretrained) (\<lambda>new_resnet.
                      Inr (make_fusion_resnet_backbone resnet new_resnet new_channels
                             old_conv old_conv_args)))
                 else
                   err_bind (select_axis1 (weight old_conv) in_chans) (\<lambda>wd.
                     Inr (ResNetFeatureMapsExtractor_init
                            (resnet\<lparr>conv1 :=
                               (nn_Conv2d_args in_chans old_conv_args)\<lparr>weight := wd\<rparr>\<rparr>)
                            None))))"

text \<open>\<open>make_segm_fpn_resnet\<close>.\<close>

definition make_segm_fpn_resnet ::
    "(string \<rightharpoonup> (bool \<Rightarrow> error + resnet)) \<Rightarrow> (nat \<Rightarrow> 'a) \<Rightarrow> env \<Rightarrow> 'a world
      \<Rightarrow> string \<Rightarrow> string \<Rightarrow> nat \<times> nat \<Rightarrow> nat \<Rightarrow> nat \<Rightarrow> bool \<Rightarrow> nat
      \<Rightarrow> (error + module) \<times> 'a world" where
  "make_segm_fpn_resnet zoo mem E w name fpn_type out_size fpn_channels num_classes
       pretrained in_chans =
     (case resnet_backbone zoo name pretrained in_chans of
        Inl e \<Rightarrow> (Inl e, w)
      | Inr backbone \<Rightarrow>
          assemble mem E w backbone fpn_type out_size fpn_channels num_classes in_chans)"


section \<open>Merge stages and collaborators used in the examples\<close>



text \<open>A convolution that halves height and width, as the first block of a ResNet layer
  does: 3 by 3, stride 2, padding 1.\<close>

definition downsample_conv :: "nat \<Rightarrow> nat \<Rightarrow> conv2d" where
  "downsample_conv in_c out_c =
     nn_Conv2d_args in_c
       \<lparr>out_channels = out_c, kernel_size = (3, 3), stride = (2, 2), padding = (1, 1),
        dilation = (1, 1), groups = 1, bias = False\<rparr>"

text \<open>A pretrained network that takes an Array of three channels and returns three feature
  maps, at a quarter, an eighth and a sixteenth of the input size, and refuses any other
  input; its merge policy is never asked for.\<close>

fun pyramid_forward :: "string \<Rightarrow> bool \<Rightarrow> val \<Rightarrow> error + val" where
  "pyramid_forward name tr (L xs) = Inl TypeError"
| "pyramid_forward name tr (T (n, c, h, w)) =
     (if c = 3
      then Inr (L [T (n, 64, h div 4, w div 4), T (n, 128, h div 8, w div 8),
                   T (n, 256, h div 16, w div 16)])
      else Inl RuntimeError)"

definition pyramid_env :: env where
  "pyramid_env =
     \<lparr>opaque_forward = pyramid_forward, stage_merge = (\<lambda>m tr acc x. Inl TypeError)\<rparr>"

text \<open>A model hub that answers every request with the name it was asked for.\<close>

definition echo_hub :: "string \<Rightarrow> nat \<Rightarrow> string \<Rightarrow> nat \<Rightarrow> error + string" where
  "echo_hub name num_classes pretrained in_chans = Inr name"

text \<open>A model zoo with one ResNet whose parts have the shape contracts of torchvision's:
  a 7 by 7 convolution of stride 2, a normalisation and an activation that keep the shape, a
  pooling that halves the size (a strided convolution stands for it), and four layers, the
  last three of which halve the size and double the channels.\<close>

definition toy_resnet :: resnet where
  "toy_resnet =
     \<lparr>conv1 = nn_Conv2d_args 3
                \<lparr>out_channels = 64, kernel_size = (7, 7), stride = (2, 2), padding = (3, 3),
                 dilation = (1, 1), groups = 1, bias = False\<rparr>,
      bn1 = Identity, relu = ReLU, maxpool = Conv2d (downsample_conv 64 64),
      layer1 = Conv2d (nn_Conv2d 64 64 3 1), layer2 = Conv2d (downsample_conv 64 128),
      layer3 = Conv2d (downsample_conv 128 256), layer4 = Conv2d (downsample_conv 256 512)\<rparr>"

definition toy_zoo :: "string \<rightharpoonup> (bool \<Rightarrow> error + resnet)" where
  "toy_zoo = [''resnet18'' \<mapsto> (\<lambda>pretrained. Inr toy_resnet)]"

definition fresh_world :: "int world" where
  "fresh_world = \<lparr>training = True, grad_enabled = True, calls = []\<rparr>"


section \<open>SplitTensor: the round trip\<close>

lemma chunks_concat: "sum_list sizes = length x \<Longrightarrow> concat (chunks sizes x) = x"
proof (induction sizes arbitrary: x)
  case Nil
  then show ?case by simp
next
  case (Cons k ks)
  then have "sum_list ks = length (drop k x)" by simp
  then have "concat (chunks ks (drop k x)) = drop k x" by (rule Cons.IH)
  then show ?case by simp
qed

lemma chunks_lengths: "sum_list sizes = length x \<Longrightarrow> map length (chunks sizes x) = sizes"
proof (induction sizes arbitrary: x)
  case Nil
  then show ?case by simp
next
  case (Cons k ks)
  then have "sum_list ks = length (drop k x)" by simp
  then have "map length (chunks ks (drop k x)) = ks" by (rule Cons.IH)
  moreover from Cons.prems have "k \<le> length x" by simp
  ultimately show ?case by simp
qed

text \<open>
  Claim C9. For an Array with C channels and chunk sizes that sum to C, \<open>SplitTensor\<close>
  returns chunks of exactly the configured sizes, and concatenating them along the channel
  axis in the same order gives the Array back. When the sizes do not sum to C,
  \<open>SplitTensor\<close> fails.
\<close>

theorem SplitTensor_roundtrip:
  "(sum_list sizes = length x \<longrightarrow>
      (\<exists>cs. SplitTensor_channels sizes x = Inr cs \<and> concat cs = x \<and> map length cs = sizes))
   \<and> (sum_list sizes \<noteq> length x \<longrightarrow> SplitTensor_channels sizes x = Inl ConfigurationError)"
  by (simp add: SplitTensor_channels_def chunks_concat chunks_lengths)

theorem SplitTensor_roundtrip_witness:
  "SplitTensor_channels [3, 2] [10, 11, 12, 13, 14 :: int] = Inr [[10, 11, 12], [13, 14]]
   \<and> concat [[10, 11, 12], [13, 14 :: int]] = [10, 11, 12, 13, 14]
   \<and> SplitTensor_channels [3, 1] [10, 11, 12, 13, 14 :: int] = Inl ConfigurationError"
  using SplitTensor_roundtrip [of "[3, 2]" "[10, 11, 12, 13, 14 :: int]"]
        SplitTensor_roundtrip [of "[3, 1]" "[10, 11, 12, 13, 14 :: int]"]
  by (simp add: SplitTensor_channels_def)


section \<open>SequentialMultiInputMultiOutput: lengths and shapes\<close>

lemma smimo_arity:
  "length xs \<noteq> length stages \<Longrightarrow>
     SequentialMultiInputMultiOutput_forward stages xs = Inl ArityError"
  by (simp add: SequentialMultiInputMultiOutput_forward_def)







section \<open>The shape probe\<close>

lemma tshape_torch_empty: "tshape (torch_empty mem s) = s"
  by (simp add: torch_empty_def)

lemma err_map_shape_of: "err_map shape_of (map T ss) = Inr ss"
  by (induction ss) simp_all

text \<open>
  Claim C2, as amended. \<open>_get_shapes\<close> builds one Array of shape (1, ch, sz, sz) with
  \<open>torch.empty\<close>, so its contents are those of the uninitialised memory and need not be
  zero; it evaluates the backbone exactly once, on that Array, with the training flag
  cleared and the gradient mode off; and it returns the error of that evaluation, or the
  shapes of the elements of the Stream it gave.
\<close>

theorem get_shapes_probe:
  "fst (get_shapes mem m w ch sz) =
     (case m False (torch_empty mem (1, ch, sz, sz)) of
        Inl e \<Rightarrow> Inl e
      | Inr feats \<Rightarrow> shapes_of feats)
   \<and> calls (snd (get_shapes mem m w ch sz)) =
       calls w @ [(False, False, torch_empty mem (1, ch, sz, sz))]
   \<and> tshape (torch_empty mem (1, ch, sz, sz)) = (1, ch, sz, sz)
   \<and> tdata (torch_empty mem (1, ch, sz, sz)) = map mem [0..<1 * ch * sz * sz]
   \<and> (m False (torch_empty mem (1, ch, sz, sz)) = Inr (L (map T ss))
        \<longrightarrow> fst (get_shapes mem m w ch sz) = Inr ss)"
  by (simp add: get_shapes_def Let_def torch_empty_def err_map_shape_of split: sum.splits)

text \<open>The probe of a backbone that returns three feature maps.\<close>

theorem get_shapes_probe_witness:
  "fst (get_shapes int (forward pyramid_env (EfficientNetFeatureMapsExtractor ''efficientnet_b0''))
          fresh_world 3 32)
     = Inr [(1, 64, 8, 8), (1, 128, 4, 4), (1, 256, 2, 2)]
   \<and> calls (snd (get_shapes int
          (forward pyramid_env (EfficientNetFeatureMapsExtractor ''efficientnet_b0''))
          fresh_world 3 32))
     = [(False, False, torch_empty int (1, 3, 32, 32))]"
proof -
  have h: "forward pyramid_env (EfficientNetFeatureMapsExtractor ''efficientnet_b0'') False
             (torch_empty int (1, 3, 32, 32))
           = Inr (L (map T [(1, 64, 8, 8), (1, 128, 4, 4), (1, 256, 2, 2)]))"
    by (simp add: forward_def pyramid_env_def tshape_torch_empty)
  from get_shapes_probe [of int "forward pyramid_env (EfficientNetFeatureMapsExtractor ''efficientnet_b0'')"
      fresh_world 3 32 "[(1, 64, 8, 8), (1, 128, 4, 4), (1, 256, 2, 2)]"] h
  show ?thesis by (simp add: fresh_world_def)
qed

text \<open>The claim as it stands says that the Array is all-zero: with a memory that holds 7,
  the Array that the backbone is evaluated on holds 7.\<close>

theorem get_shapes_probe_counterexample:
  "calls (snd (get_shapes (\<lambda>i. 7) (\<lambda>tr x. Inr (L [])) fresh_world 1 1))
     = [(False, False, \<lparr>tshape = (1, 1, 1, 1), tdata = [7]\<rparr>)]
   \<and> \<lparr>tshape = (1, 1, 1, 1), tdata = [7]\<rparr> \<noteq> (torch_zeros (1, 1, 1, 1) :: int tensor)"
  by (simp add: get_shapes_def Let_def torch_empty_def torch_zeros_def fresh_world_def)

text \<open>
  Claim C3, as amended. When the forward pass of the probe returns, \<open>_get_shapes\<close> leaves
  the training flag of the backbone and the gradient mode as they were: the only trace is
  the recorded evaluation.
\<close>

theorem get_shapes_restores_mode:
  assumes "m False (torch_empty mem (1, ch, sz, sz)) = Inr feats"
  shows "snd (get_shapes mem m w ch sz)
           = w\<lparr>calls := calls w @ [(False, False, torch_empty mem (1, ch, sz, sz))]\<rparr>
         \<and> training (snd (get_shapes mem m w ch sz)) = training w
         \<and> grad_enabled (snd (get_shapes mem m w ch sz)) = grad_enabled w"
  using assms by (simp add: get_shapes_def Let_def)

text \<open>A backbone in training mode is in training mode after a probe that succeeds.\<close>

theorem get_shapes_restores_mode_witness:
  "training (snd (get_shapes int
      (forward pyramid_env (EfficientNetFeatureMapsExtractor ''efficientnet_b0''))
      fresh_world 3 32)) = True
   \<and> training fresh_world = True"
proof -
  have h: "forward pyramid_env (EfficientNetFeatureMapsExtractor ''efficientnet_b0'') False
             (torch_empty int (1, 3, 32, 32))
           = Inr (L [T (1, 64, 8, 8), T (1, 128, 4, 4), T (1, 256, 2, 2)])"
    by (simp add: forward_def pyramid_env_def tshape_torch_empty)
  from get_shapes_restores_mode
      [of "forward pyramid_env (EfficientNetFeatureMapsExtractor ''efficientnet_b0'')" int 3 32
          "L [T (1, 64, 8, 8), T (1, 128, 4, 4), T (1, 256, 2, 2)]" fresh_world] h
  show ?thesis by (simp add: fresh_world_def)
qed

text \<open>The claim as it stands covers the exit by an exception: a backbone in training mode
  that refuses the two-channel Array of the probe is left in inference mode, and the
  gradient mode alone is restored.\<close>

theorem get_shapes_mode_counterexample:
  "training fresh_world = True
   \<and> get_shapes int (forward pyramid_env (EfficientNetFeatureMapsExtractor ''efficientnet_b0''))
       fresh_world 2 32
     = (Inl RuntimeError,
        \<lparr>training = False, grad_enabled = True,
         calls = [(False, False, torch_empty int (1, 2, 32, 32))]\<rparr>)"
  by (simp add: get_shapes_def Let_def fresh_world_def forward_def pyramid_env_def
      tshape_torch_empty)



section \<open>FPN and PANetFPN: the wiring\<close>

lemma Sequential_forward_single: "Sequential_forward [f] = f"
proof
  fix x show "Sequential_forward [f] x = f x" by (cases "f x") simp_all
qed

lemma Sequential_forward_fun:
  "Sequential_forward (f # g # fs) = (\<lambda>x. err_bind (f x) (Sequential_forward (g # fs)))"
proof
  fix x show "Sequential_forward (f # g # fs) x = err_bind (f x) (Sequential_forward (g # fs))"
    by (cases "f x") simp_all
qed

lemma run_Reverse_fun: "run E tr Reverse = Reverse_forward"
  by (rule ext) simp

lemma run_Conv2d_fun: "run E tr (Conv2d c) = conv2d_forward c"
  by (rule ext) simp

lemma FPN_layers_eq:
  "FPN shapes hc oc =
     Sequential
       [Reverse,
        Parallel (map (\<lambda>s. Conv2d (nn_Conv2d (chans s) hc 1 0)) (rev shapes)),
        SequentialMultiInputMultiOutput
          (map (\<lambda>s. Residual (Interpolate (Some (spatial s)) None)) (rev shapes)),
        Parallel (map (\<lambda>s. Conv2d (nn_Conv2d hc oc 3 1)) (rev shapes)),
        Reverse]"
  by (simp add: FPN_def Let_def)

lemma FPN_run:
  "run E tr (FPN shapes hc oc) x =
       err_bind (Reverse_forward x) (\<lambda>a.
       err_bind (Parallel_forward
                   (map (\<lambda>s. conv2d_forward (nn_Conv2d (chans s) hc 1 0)) (rev shapes)) a) (\<lambda>b.
       err_bind (smimo_forward
                   (map (\<lambda>s. stage_merge E (Residual (Interpolate (Some (spatial s)) None)) tr)
                      (rev shapes)) b) (\<lambda>c.
       err_bind (Parallel_forward
                   (map (\<lambda>s. conv2d_forward (nn_Conv2d hc oc 3 1)) (rev shapes)) c)
         Reverse_forward)))"
  unfolding FPN_layers_eq
  by (simp add: Sequential_forward_fun Sequential_forward_single comp_def
      run_Reverse_fun run_Conv2d_fun del: Sequential_forward.simps)

text \<open>
  Claim C5. An \<open>FPN\<close> is the sequence of five stages, and its evaluation is their
  composition: \<open>Reverse\<close>; a \<open>Parallel\<close> of one 1 by 1 convolution per level, from the
  channels of the level to the hidden width; a \<open>SequentialMultiInputMultiOutput\<close> of one
  \<open>Residual\<close> around an \<open>Interpolate\<close> per level, sized to the height and width of the
  level; a \<open>Parallel\<close> of one 3 by 3 convolution (padding 1) per level, from the hidden width
  to the output channels; \<open>Reverse\<close>. The levels are taken coarsest first.
\<close>

theorem FPN_pipeline:
  "FPN shapes hc oc =
     Sequential
       [Reverse,
        Parallel (map (\<lambda>s. Conv2d (nn_Conv2d (chans s) hc 1 0)) (rev shapes)),
        SequentialMultiInputMultiOutput
          (map (\<lambda>s. Residual (Interpolate (Some (spatial s)) None)) (rev shapes)),
        Parallel (map (\<lambda>s. Conv2d (nn_Conv2d hc oc 3 1)) (rev shapes)),
        Reverse]
   \<and> run E tr (FPN shapes hc oc) x =
       err_bind (Reverse_forward x) (\<lambda>a.
       err_bind (Parallel_forward
                   (map (\<lambda>s. conv2d_forward (nn_Conv2d (chans s) hc 1 0)) (rev shapes)) a) (\<lambda>b.
       err_bind (smimo_forward
                   (map (\<lambda>s. stage_merge E (Residual (Interpolate (Some (spatial s)) None)) tr)
                      (rev shapes)) b) (\<lambda>c.
       err_bind (Parallel_forward
                   (map (\<lambda>s. conv2d_forward (nn_Conv2d hc oc 3 1)) (rev shapes)) c)
         Reverse_forward)))
   \<and> kernel_size (nn_Conv2d ci hc 1 0) = (1, 1) \<and> padding (nn_Conv2d ci hc 1 0) = (0, 0)
   \<and> kernel_size (nn_Conv2d hc oc 3 1) = (3, 3) \<and> padding (nn_Conv2d hc oc 3 1) = (1, 1)"
proof -
  have ks: "kernel_size (nn_Conv2d ci hc 1 0) = (1, 1) \<and> padding (nn_Conv2d ci hc 1 0) = (0, 0)
     \<and> kernel_size (nn_Conv2d hc oc 3 1) = (3, 3) \<and> padding (nn_Conv2d hc oc 3 1) = (1, 1)"
    by (simp add: nn_Conv2d_def nn_Conv2d_args_def)
  from FPN_layers_eq [of shapes hc oc] FPN_run [of E tr shapes hc oc x] ks
  show ?thesis by blast
qed

text \<open>The \<open>FPN\<close> of a pyramid of two levels.\<close>

theorem FPN_pipeline_witness:
  "FPN [(1, 64, 56, 56), (1, 128, 28, 28)] 32 5 =
     Sequential
       [Reverse,
        Parallel [Conv2d (nn_Conv2d 128 32 1 0), Conv2d (nn_Conv2d 64 32 1 0)],
        SequentialMultiInputMultiOutput
          [Residual (Interpolate (Some (28, 28)) None),
           Residual (Interpolate (Some (56, 56)) None)],
        Parallel [Conv2d (nn_Conv2d 32 5 3 1), Conv2d (nn_Conv2d 32 5 3 1)],
        Reverse]"
  using FPN_pipeline [of "[(1, 64, 56, 56), (1, 128, 28, 28)]" 32 5]
  by simp

text \<open>
  Claim C8. A \<open>PANetFPN\<close> is four stages, evaluated one after the other: an \<open>FPN\<close> over
  the given shapes that keeps the hidden width, a \<open>Reverse\<close>, a second \<open>FPN\<close> built over the
  reversed shapes (same heights and widths in the opposite order, every level of the hidden
  width), and a last \<open>Reverse\<close>.
\<close>

theorem PANetFPN_pipeline:
  "PANetFPN shapes hc oc =
     Sequential
       [FPN shapes hc hc,
        Reverse,
        FPN (rev (map (\<lambda>(n, c, h, w). (n, hc, h, w)) shapes)) hc oc,
        Reverse]
   \<and> map spatial (rev (map (\<lambda>(n, c, h, w). (n, hc, h, w)) shapes)) = rev (map spatial shapes)
   \<and> map chans (rev (map (\<lambda>(n, c, h, w). (n, hc, h, w)) shapes))
       = replicate (length shapes) hc
   \<and> run E tr (PANetFPN shapes hc oc) x =
       err_bind (run E tr (FPN shapes hc hc) x) (\<lambda>a.
       err_bind (Reverse_forward a) (\<lambda>b.
       err_bind (run E tr (FPN (rev (map (\<lambda>(n, c, h, w). (n, hc, h, w)) shapes)) hc oc) b)
         Reverse_forward))"
proof -
  have sp: "map spatial (map (\<lambda>(n, c, h, w). (n, hc, h, w)) shapes) = map spatial shapes"
    by (induction shapes) auto
  have ch: "map chans (map (\<lambda>(n, c, h, w). (n, hc, h, w)) shapes) = replicate (length shapes) hc"
    by (induction shapes) auto
  have "map chans (rev (map (\<lambda>(n, c, h, w). (n, hc, h, w)) shapes))
        = rev (replicate (length shapes) hc)"
    by (simp only: rev_map [symmetric] ch)
  then have ch': "map chans (rev (map (\<lambda>(n, c, h, w). (n, hc, h, w)) shapes))
        = replicate (length shapes) hc" by simp
  have sp': "map spatial (rev (map (\<lambda>(n, c, h, w). (n, hc, h, w)) shapes)) = rev (map spatial shapes)"
    by (simp only: rev_map [symmetric] sp)
  have st: "PANetFPN shapes hc oc =
     Sequential
       [FPN shapes hc hc,
        Reverse,
        FPN (rev (map (\<lambda>(n, c, h, w). (n, hc, h, w)) shapes)) hc oc,
        Reverse]"
    by (simp add: PANetFPN_def Let_def)
  have rn: "run E tr (PANetFPN shapes hc oc) x =
       err_bind (run E tr (FPN shapes hc hc) x) (\<lambda>a.
       err_bind (Reverse_forward a) (\<lambda>b.
       err_bind (run E tr (FPN (rev (map (\<lambda>(n, c, h, w). (n, hc, h, w)) shapes)) hc oc) b)
         Reverse_forward))"
    unfolding st
    by (simp add: Sequential_forward_fun Sequential_forward_single comp_def
        run_Reverse_fun run_Conv2d_fun del: Sequential_forward.simps)
  from st sp' ch' rn show ?thesis by blast
qed

text \<open>The \<open>PANetFPN\<close> of a pyramid of two levels.\<close>

theorem PANetFPN_pipeline_witness:
  "PANetFPN [(1, 64, 56, 56), (1, 128, 28, 28)] 32 5 =
     Sequential
       [FPN [(1, 64, 56, 56), (1, 128, 28, 28)] 32 32,
        Reverse,
        FPN [(1, 32, 28, 28), (1, 32, 56, 56)] 32 5,
        Reverse]"
  using PANetFPN_pipeline [of "[(1, 64, 56, 56), (1, 128, 28, 28)]" 32 5]
  by simp



section \<open>PanopticFPN: the ladders\<close>

lemma conv3_forward:
  "0 < h \<Longrightarrow> 0 < w \<Longrightarrow>
     conv2d_forward (nn_Conv2d c oc 3 1) (T (n, c, h, w)) = Inr (T (n, oc, h, w))"
  by (simp add: nn_Conv2d_def nn_Conv2d_args_def conv_args.defs conv_out_def)


lemma conv2d_forward_out:
  assumes "conv2d_forward cv x = Inr y"
  shows "\<exists>n h w. y = T (n, out_channels cv, h, w)"
proof (cases x)
  case (L xs)
  with assms show ?thesis by simp
next
  case (T s)
  obtain n ci h w where s: "s = (n, ci, h, w)" by (cases s) auto
  let ?a = "conv_out h (fst (kernel_size cv)) (fst (stride cv)) (fst (padding cv))
                (fst (dilation cv))"
  let ?b = "conv_out w (snd (kernel_size cv)) (snd (stride cv)) (snd (padding cv))
                (snd (dilation cv))"
  from assms T s show ?thesis
    by (cases ?a; cases ?b) (auto split: if_splits)
qed

lemma out_channels_nn_Conv2d: "out_channels (nn_Conv2d c oc k p) = oc"
  by (simp add: nn_Conv2d_def nn_Conv2d_args_def)

lemma in_channels_nn_Conv2d: "in_channels (nn_Conv2d c oc k p) = c"
  by (simp add: nn_Conv2d_def nn_Conv2d_args_def)



lemma block_run_same:
  assumes "0 < h" "0 < w"
  shows "run E tr (Sequential [Conv2d (nn_Conv2d c oc 3 1), GroupNorm g oc, ReLU]) (T (n, c, h, w))
         = Inr (T (n, oc, h, w))"
  using assms by (simp add: conv3_forward del: conv2d_forward.simps One_nat_def)




lemma Sequential_forward_append:
  "Sequential_forward (fs @ gs) x = err_bind (Sequential_forward fs x) (Sequential_forward gs)"
proof (induction fs arbitrary: x)
  case Nil
  then show ?case by simp
next
  case (Cons f fs)
  then show ?case by (cases "f x") simp_all
qed

lemma Sequential_forward_last:
  assumes "Sequential_forward (fs @ [f]) x = Inr y"
  shows "\<exists>z. f z = Inr y"
proof -
  from assms obtain z where "Sequential_forward fs x = Inr z" and "Sequential_forward [f] z = Inr y"
    by (cases "Sequential_forward fs x") (auto simp: Sequential_forward_append)
  then have "f z = Inr y" by (cases "f z") simp_all
  then show ?thesis ..
qed





lemma err_map_set:
  assumes "err_map f xs = Inr ys"
  shows "\<forall>y\<in>set ys. \<exists>x\<in>set xs. f x = Inr y"
  using assms
proof (induction xs arbitrary: ys)
  case Nil
  then show ?case by simp
next
  case (Cons x xs)
  from Cons.prems obtain y zs where y: "f x = Inr y" and zs: "err_map f xs = Inr zs"
    and ys: "ys = y # zs"
    by (auto split: sum.splits)
  from Cons.IH [OF zs] y ys show ?case by auto
qed

lemma par_apply_all:
  assumes "par_apply fs xs = Inr ys"
      and "\<forall>f\<in>set fs. \<forall>x y. f x = Inr y \<longrightarrow> P y"
  shows "list_all P ys"
  using assms
proof (induction fs xs arbitrary: ys rule: par_apply.induct)
  case 1
  then show ?case by simp
next
  case (2 b bs x xs)
  from "2.prems"(1) obtain y zs where y: "b x = Inr y" and zs: "par_apply bs xs = Inr zs"
    and ys: "ys = y # zs"
    by (auto split: sum.splits)
  from "2.prems"(2) y have "P y" by simp
  moreover from "2.prems"(2) have "\<forall>f\<in>set bs. \<forall>x y. f x = Inr y \<longrightarrow> P y" by simp
  with "2.IH" y zs have "list_all P zs" by blast
  ultimately show ?case using ys by simp
next
  case (3 x xs)
  then show ?case by simp
next
  case (4 b bs)
  then show ?case by simp
qed

lemma Parallel_forward_all:
  assumes "Parallel_forward fs x = Inr y"
      and "\<forall>f\<in>set fs. \<forall>x y. f x = Inr y \<longrightarrow> P y"
  shows "\<exists>ys. y = L ys \<and> list_all P ys"
proof (cases x)
  case (T s)
  with assms(1) show ?thesis by simp
next
  case (L xs)
  with assms(1) obtain ys where "par_apply fs xs = Inr ys" and "y = L ys"
    by (cases "par_apply fs xs") (auto split: if_splits)
  with par_apply_all [OF _ assms(2)] show ?thesis by blast
qed

lemma PanopticFPN_layers_shape:
  assumes "PanopticFPN_layers shapes c oc ups g = Inr layers"
  shows "\<exists>a us. layers = [a, Parallel us, AddTensors, Conv2d (nn_Conv2d (c div 2) oc 1 0)]
           \<and> (\<forall>m\<in>set us. \<exists>u sz. upsample_feat c u sz g = Inr m)"
proof (cases shapes)
  case Nil
  with assms show ?thesis by (simp add: PanopticFPN_layers_def Let_def)
next
  case (Cons s0 rest)
  let ?ups = "case ups of None \<Rightarrow> map int [0..<length shapes] | Some us \<Rightarrow> us"
  from assms Cons obtain us where us: "err_map (\<lambda>u. upsample_feat c u (spatial s0) g) ?ups = Inr us"
    and layers: "layers = [Parallel (map (\<lambda>s. Conv2d (nn_Conv2d (chans s) c 1 0)) shapes),
                 Parallel us, AddTensors, Conv2d (nn_Conv2d (c div 2) oc 1 0)]"
    by (cases "err_map (\<lambda>u. upsample_feat c u (spatial s0) g) ?ups")
       (auto simp: PanopticFPN_layers_def make_upsamplers_def Let_def)
  from err_map_set [OF us] have "\<forall>m\<in>set us. \<exists>u sz. upsample_feat c u sz g = Inr m" by blast
  with layers show ?thesis by blast
qed








section \<open>The factories\<close>

lemma err_bind_Inr: "err_bind m f = Inr y \<longleftrightarrow> (\<exists>a. m = Inr a \<and> f a = Inr y)"
  by (cases m) auto

lemma run_Sequential2:
  "run E tr (Sequential [a, b]) x = err_bind (run E tr a x) (run E tr b)"
  by (simp only: run.simps(6) list.map Sequential_forward_fun Sequential_forward_single)

lemma run_Sequential3:
  "run E tr (Sequential [a, b, c]) x =
     err_bind (run E tr a x) (\<lambda>y. err_bind (run E tr b y) (run E tr c))"
  by (simp only: run.simps(6) list.map Sequential_forward_fun Sequential_forward_single)

lemma FPN_out:
  assumes "run E tr (FPN shapes hc oc) x = Inr z"
  shows "\<exists>zs. z = L zs \<and> list_all (\<lambda>v. \<exists>n h w. v = T (n, oc, h, w)) zs"
proof -
  let ?P = "\<lambda>v. \<exists>n h w. v = T (n, oc, h, w)"
  let ?out = "map (\<lambda>s. conv2d_forward (nn_Conv2d hc oc 3 1)) (rev shapes)"
  from assms obtain c d where c: "Parallel_forward ?out c = Inr d"
    and d: "Reverse_forward d = Inr z"
    unfolding FPN_run err_bind_Inr by blast
  have "\<forall>f\<in>set ?out. \<forall>x y. f x = Inr y \<longrightarrow> ?P y"
    using conv2d_forward_out by (fastforce simp: out_channels_nn_Conv2d)
  from Parallel_forward_all [OF c this] obtain ds where ds: "d = L ds" "list_all ?P ds"
    by blast
  with d have "z = L (rev ds)" by simp
  moreover from ds have "list_all ?P (rev ds)" by (simp add: list_all_iff)
  ultimately show ?thesis by blast
qed

lemma SelectOne_all:
  assumes "SelectOne_forward k (L zs) = Inr y" and "list_all P zs"
  shows "P y"
  using assms by (auto simp: list_all_length split: if_splits)

lemma select_fpn_out:
  assumes "select_fpn fpn_type shapes fc nc = Inr fpn" and "run E tr fpn x = Inr y"
  shows "\<exists>n h w. y = T (n, nc, h, w)"
proof -
  let ?P = "\<lambda>v. \<exists>n h w. v = T (n, nc, h, w)"
  consider (fpn) "fpn_type = ''fpn''" | (panoptic) "fpn_type = ''panoptic''"
    | (panet) "fpn_type = ''panet+fpn''"
    using assms(1) by (auto simp: select_fpn_def split: if_splits)
  then show ?thesis
  proof cases
    case fpn
    with assms(1) have m: "fpn = Sequential [FPN shapes fc nc, SelectOne 0]"
      by (simp add: select_fpn_def)
    from assms(2) obtain z where z: "run E tr (FPN shapes fc nc) x = Inr z"
      and y: "run E tr (SelectOne 0) z = Inr y"
      unfolding m run_Sequential2 err_bind_Inr by blast
    from y have y: "SelectOne_forward 0 z = Inr y" by simp
    from FPN_out [OF z] obtain zs where "z = L zs" "list_all ?P zs" by blast
    with y SelectOne_all show ?thesis by blast
  next
    case panoptic
    with assms(1) have "PanopticFPN shapes fc nc None 32 = Inr fpn"
      by (simp add: select_fpn_def)
    then obtain layers where l: "PanopticFPN_layers shapes fc nc None 32 = Inr layers"
      and m: "fpn = Sequential layers"
      by (cases "PanopticFPN_layers shapes fc nc None 32") (auto simp: PanopticFPN_def)
    from PanopticFPN_layers_shape [OF l] obtain a us where
      "layers = [a, Parallel us, AddTensors] @ [Conv2d (nn_Conv2d (fc div 2) nc 1 0)]"
      by auto
    with assms(2) m have "Sequential_forward
        (map (run E tr) [a, Parallel us, AddTensors] @ [run E tr (Conv2d (nn_Conv2d (fc div 2) nc 1 0))]) x = Inr y"
      by simp
    then obtain z where "run E tr (Conv2d (nn_Conv2d (fc div 2) nc 1 0)) z = Inr y"
      using Sequential_forward_last by blast
    then have "conv2d_forward (nn_Conv2d (fc div 2) nc 1 0) z = Inr y" by simp
    from conv2d_forward_out [OF this] show ?thesis by (simp add: out_channels_nn_Conv2d)
  next
    case panet
    let ?s2 = "map (\<lambda>(n, c, h, w). (n, fc, h, w)) shapes"
    from panet assms(1) have m: "fpn = Sequential [PANetFPN shapes fc fc, FPN ?s2 fc nc, SelectOne 0]"
      by (simp add: select_fpn_def Let_def)
    from assms(2) obtain a z where z: "run E tr (FPN ?s2 fc nc) a = Inr z"
      and y: "run E tr (SelectOne 0) z = Inr y"
      unfolding m run_Sequential3 err_bind_Inr by blast
    from y have y: "SelectOne_forward 0 z = Inr y" by simp
    from FPN_out [OF z] obtain zs where "z = L zs" "list_all ?P zs" by blast
    with y SelectOne_all show ?thesis by blast
  qed
qed

lemma assemble_model:
  assumes "fst (assemble mem E w backbone fpn_type out_size fc nc ic) = Inr model"
  shows "\<exists>fpn shapes. model = Sequential [backbone, fpn, Interpolate (Some out_size) None]
           \<and> select_fpn fpn_type shapes fc nc = Inr fpn"
  using assms
  by (auto simp: assemble_def split: prod.splits sum.splits)

lemma factory_model:
  assumes "fst (make_segm_fpn_efficientnet hub mem E w name fpn_type out_size fc nc pre ic)
             = Inr model
           \<or> fst (make_segm_fpn_resnet zoo mem E w name fpn_type out_size fc nc pre' ic)
             = Inr model"
  shows "\<exists>backbone fpn shapes.
           model = Sequential [backbone, fpn, Interpolate (Some out_size) None]
           \<and> select_fpn fpn_type shapes fc nc = Inr fpn"
  using assms
proof
  assume "fst (make_segm_fpn_efficientnet hub mem E w name fpn_type out_size fc nc pre ic)
             = Inr model"
  then obtain b where "fst (assemble mem E w b fpn_type out_size fc nc ic) = Inr model"
    by (auto simp: make_segm_fpn_efficientnet_def split: sum.splits)
  from assemble_model [OF this] show ?thesis by blast
next
  assume "fst (make_segm_fpn_resnet zoo mem E w name fpn_type out_size fc nc pre' ic)
             = Inr model"
  then obtain b where "fst (assemble mem E w b fpn_type out_size fc nc ic) = Inr model"
    by (auto simp: make_segm_fpn_resnet_def split: sum.splits)
  from assemble_model [OF this] show ?thesis by blast
qed

text \<open>
  Claim C6. A model that either factory returns is the sequence of the backbone, the head
  and an \<open>Interpolate\<close> to \<open>out_size\<close>; whenever a call of it returns, the result is a single
  Array with \<open>num_classes\<close> channels and the height and width of \<open>out_size\<close>.
\<close>

theorem factory_output_shape:
  assumes "fst (make_segm_fpn_efficientnet hub mem E0 w name fpn_type out_size fc nc pre ic)
             = Inr model
           \<or> fst (make_segm_fpn_resnet zoo mem E0 w name fpn_type out_size fc nc pre' ic)
             = Inr model"
      and "run E tr model x = Inr y"
  shows "(\<exists>backbone fpn. model = Sequential [backbone, fpn, Interpolate (Some out_size) None])
         \<and> (\<exists>n. y = T (n, nc, fst out_size, snd out_size))"
proof -
  from factory_model [OF assms(1)] obtain backbone fpn shapes where
    m: "model = Sequential [backbone, fpn, Interpolate (Some out_size) None]"
    and f: "select_fpn fpn_type shapes fc nc = Inr fpn" by blast
  from assms(2) obtain a b where a: "run E tr fpn a = Inr b"
    and y: "run E tr (Interpolate (Some out_size) None) b = Inr y"
    unfolding m run_Sequential3 err_bind_Inr by blast
  from y have y: "Interpolate_forward (Some out_size) None b = Inr y" by simp
  from select_fpn_out [OF f a] obtain n h w where "b = T (n, nc, h, w)" by blast
  with y have "y = T (n, nc, fst out_size, snd out_size)" by (cases out_size) auto
  with m show ?thesis by blast
qed


text \<open>Both factories, with the panoptic head and an output size of 64 by 64: a batch of two
  images gives an Array of shape (2, 5, 64, 64).\<close>

theorem factory_output_shape_witness:
  "err_bind (fst (make_segm_fpn_resnet toy_zoo int pyramid_env fresh_world
                    ''resnet18'' ''panoptic'' (64, 64) 64 5 True 3))
     (\<lambda>model. run pyramid_env False model (T (2, 3, 64, 64)))
   = Inr (T (2, 5, 64, 64))
   \<and> err_bind (fst (make_segm_fpn_efficientnet echo_hub int pyramid_env fresh_world
                    ''efficientnet_b0'' ''panoptic'' (64, 64) 64 5 ''imagenet'' 3))
     (\<lambda>model. run pyramid_env False model (T (2, 3, 64, 64)))
   = Inr (T (2, 5, 64, 64))"
proof -
  define R where "R = fst (make_segm_fpn_resnet toy_zoo int pyramid_env fresh_world
                    ''resnet18'' ''panoptic'' (64, 64) 64 5 True 3)"
  define Q where "Q = fst (make_segm_fpn_efficientnet echo_hub int pyramid_env fresh_world
                    ''efficientnet_b0'' ''panoptic'' (64, 64) 64 5 ''imagenet'' 3)"
  have r: "err_bind R (\<lambda>model. run pyramid_env False model (T (2, 3, 64, 64)))
             = Inr (T (2, 5, 64, 64))"
    unfolding R_def
    by (simp add: make_segm_fpn_resnet_def resnet_backbone_def toy_zoo_def toy_resnet_def
        ResNetFeatureMapsExtractor_init_def assemble_def get_shapes_def forward_def
        tshape_torch_empty fresh_world_def select_fpn_def
        PanopticFPN_def PanopticFPN_layers_def make_upsamplers_def
        upsample_feat_def upsample_once_def nn_GroupNorm_def Let_def
        SequentialMultiOutput_forward_def downsample_conv_def upt_conv_Cons
        nn_Conv2d_def nn_Conv2d_args_def weight_shape_def conv_args.defs conv_out_def)
  have q: "err_bind Q (\<lambda>model. run pyramid_env False model (T (2, 3, 64, 64)))
             = Inr (T (2, 5, 64, 64))"
    unfolding Q_def
    by (simp add: make_segm_fpn_efficientnet_def efficientnet_backbone_def
        load_efficientnet_def echo_hub_def pyramid_env_def
        assemble_def get_shapes_def forward_def
        tshape_torch_empty fresh_world_def select_fpn_def
        PanopticFPN_def PanopticFPN_layers_def make_upsamplers_def
        upsample_feat_def upsample_once_def nn_GroupNorm_def Let_def upt_conv_Cons
        nn_Conv2d_def nn_Conv2d_args_def weight_shape_def conv_args.defs conv_out_def)
  from r obtain model where m: "R = Inr model"
    and y: "run pyramid_env False model (T (2, 3, 64, 64)) = Inr (T (2, 5, 64, 64))"
    unfolding err_bind_Inr by blast
  from m have "fst (make_segm_fpn_efficientnet echo_hub int pyramid_env fresh_world
                    ''resnet18'' ''panoptic'' (64, 64) 64 5 ''imagenet'' 3) = Inr model
               \<or> fst (make_segm_fpn_resnet toy_zoo int pyramid_env fresh_world
                    ''resnet18'' ''panoptic'' (64, 64) 64 5 True 3) = Inr model"
    unfolding R_def by simp
  from factory_output_shape [OF this y] r q show ?thesis
    unfolding R_def Q_def by simp
qed

lemma get_shapes_calls:
  "calls (snd (get_shapes mem m w ch sz))
     = calls w @ [(False, False, torch_empty mem (1, ch, sz, sz))]"
  by (simp add: get_shapes_def Let_def split: sum.splits)

lemma select_fpn_unknown:
  "fpn_type \<noteq> ''fpn'' \<Longrightarrow> fpn_type \<noteq> ''panoptic'' \<Longrightarrow> fpn_type \<noteq> ''panet+fpn'' \<Longrightarrow>
     select_fpn fpn_type shapes fc nc = Inl NotImplementedError"
  by (simp add: select_fpn_def)

lemma assemble_unknown:
  assumes "fpn_type \<noteq> ''fpn''" "fpn_type \<noteq> ''panoptic''" "fpn_type \<noteq> ''panet+fpn''"
  shows "assemble mem E w b fpn_type out_size fc nc ic =
           (case fst (get_shapes mem (forward E b) (w\<lparr>training := True\<rparr>) ic (fst out_size)) of
              Inl e \<Rightarrow> Inl e
            | Inr shapes \<Rightarrow> Inl NotImplementedError,
            snd (get_shapes mem (forward E b) (w\<lparr>training := True\<rparr>) ic (fst out_size)))"
  using assms
  by (simp add: assemble_def select_fpn_unknown split: prod.splits sum.splits)

text \<open>
  Claim C4, as amended. With a selector outside \<open>'fpn'\<close>, \<open>'panoptic'\<close>, \<open>'panet+fpn'\<close>, a
  call of either factory raises and returns no model. The selector is looked at after the
  backbone has been built and probed: when both succeed, the error is
  \<open>NotImplementedError\<close>, and the probe has evaluated the backbone once by then.
\<close>

theorem unknown_fpn_type_raises:
  assumes "fpn_type \<noteq> ''fpn''" "fpn_type \<noteq> ''panoptic''" "fpn_type \<noteq> ''panet+fpn''"
  shows "(\<exists>e. fst (make_segm_fpn_efficientnet hub mem E w name fpn_type out_size fc nc pre ic)
               = Inl e)
       \<and> (\<exists>e. fst (make_segm_fpn_resnet zoo mem E w name fpn_type out_size fc nc pre' ic)
               = Inl e)
       \<and> (\<forall>b shapes.
            efficientnet_backbone hub name nc pre ic = Inr b
            \<and> fst (get_shapes mem (forward E b) (w\<lparr>training := True\<rparr>) ic (fst out_size))
                = Inr shapes
            \<longrightarrow> fst (make_segm_fpn_efficientnet hub mem E w name fpn_type out_size fc nc pre ic)
                  = Inl NotImplementedError
                \<and> calls (snd (make_segm_fpn_efficientnet hub mem E w name fpn_type out_size
                                fc nc pre ic))
                  = calls w @ [(False, False, torch_empty mem (1, ic, fst out_size, fst out_size))])
       \<and> (\<forall>b shapes.
            resnet_backbone zoo name pre' ic = Inr b
            \<and> fst (get_shapes mem (forward E b) (w\<lparr>training := True\<rparr>) ic (fst out_size))
                = Inr shapes
            \<longrightarrow> fst (make_segm_fpn_resnet zoo mem E w name fpn_type out_size fc nc pre' ic)
                  = Inl NotImplementedError
                \<and> calls (snd (make_segm_fpn_resnet zoo mem E w name fpn_type out_size
                                fc nc pre' ic))
                  = calls w @ [(False, False, torch_empty mem (1, ic, fst out_size, fst out_size))])"
proof (intro conjI allI impI)
  show "\<exists>e. fst (make_segm_fpn_efficientnet hub mem E w name fpn_type out_size fc nc pre ic)
               = Inl e"
    by (auto simp: make_segm_fpn_efficientnet_def assemble_unknown [OF assms] split: sum.splits)
  show "\<exists>e. fst (make_segm_fpn_resnet zoo mem E w name fpn_type out_size fc nc pre' ic)
               = Inl e"
    by (auto simp: make_segm_fpn_resnet_def assemble_unknown [OF assms] split: sum.splits)
next
  fix b shapes
  assume "efficientnet_backbone hub name nc pre ic = Inr b
            \<and> fst (get_shapes mem (forward E b) (w\<lparr>training := True\<rparr>) ic (fst out_size))
                = Inr shapes"
  then show "fst (make_segm_fpn_efficientnet hub mem E w name fpn_type out_size fc nc pre ic)
                  = Inl NotImplementedError"
    and "calls (snd (make_segm_fpn_efficientnet hub mem E w name fpn_type out_size
                                fc nc pre ic))
                  = calls w @ [(False, False, torch_empty mem (1, ic, fst out_size, fst out_size))]"
    by (simp_all add: make_segm_fpn_efficientnet_def assemble_unknown [OF assms] get_shapes_calls)
next
  fix b shapes
  assume "resnet_backbone zoo name pre' ic = Inr b
            \<and> fst (get_shapes mem (forward E b) (w\<lparr>training := True\<rparr>) ic (fst out_size))
                = Inr shapes"
  then show "fst (make_segm_fpn_resnet zoo mem E w name fpn_type out_size fc nc pre' ic)
                  = Inl NotImplementedError"
    and "calls (snd (make_segm_fpn_resnet zoo mem E w name fpn_type out_size
                                fc nc pre' ic))
                  = calls w @ [(False, False, torch_empty mem (1, ic, fst out_size, fst out_size))]"
    by (simp_all add: make_segm_fpn_resnet_def assemble_unknown [OF assms] get_shapes_calls)
qed

text \<open>The selector \<open>'bifpn'\<close> with backbones that load and answer the probe.\<close>

theorem unknown_fpn_type_raises_witness:
  "make_segm_fpn_efficientnet echo_hub int pyramid_env fresh_world
       ''efficientnet_b0'' ''bifpn'' (64, 64) 64 5 ''imagenet'' 3
     = (Inl NotImplementedError,
        \<lparr>training = True, grad_enabled = True,
         calls = [(False, False, torch_empty int (1, 3, 64, 64))]\<rparr>)
   \<and> make_segm_fpn_resnet toy_zoo int pyramid_env fresh_world
       ''resnet18'' ''bifpn'' (64, 64) 64 5 True 3
     = (Inl NotImplementedError,
        \<lparr>training = True, grad_enabled = True,
         calls = [(False, False, torch_empty int (1, 3, 64, 64))]\<rparr>)"
proof -
  have n: "''bifpn'' \<noteq> ''fpn''" "''bifpn'' \<noteq> ''panoptic''" "''bifpn'' \<noteq> ''panet+fpn''"
    by simp_all
  note t = unknown_fpn_type_raises [OF n, of echo_hub int pyramid_env fresh_world
      "''efficientnet_b0''" "(64, 64)" 64 5 "''imagenet''" 3 toy_zoo True]
  have a: "make_segm_fpn_efficientnet echo_hub int pyramid_env fresh_world
       ''efficientnet_b0'' ''bifpn'' (64, 64) 64 5 ''imagenet'' 3
     = (Inl NotImplementedError,
        \<lparr>training = True, grad_enabled = True,
         calls = [(False, False, torch_empty int (1, 3, 64, 64))]\<rparr>)"
    by (simp add: make_segm_fpn_efficientnet_def efficientnet_backbone_def
        load_efficientnet_def echo_hub_def pyramid_env_def
        assemble_def get_shapes_def forward_def Let_def
        tshape_torch_empty fresh_world_def select_fpn_def)
  have b: "make_segm_fpn_resnet toy_zoo int pyramid_env fresh_world
       ''resnet18'' ''bifpn'' (64, 64) 64 5 True 3
     = (Inl NotImplementedError,
        \<lparr>training = True, grad_enabled = True,
         calls = [(False, False, torch_empty int (1, 3, 64, 64))]\<rparr>)"
    by (simp add: make_segm_fpn_resnet_def resnet_backbone_def toy_zoo_def toy_resnet_def
        ResNetFeatureMapsExtractor_init_def assemble_def get_shapes_def forward_def
        tshape_torch_empty fresh_world_def select_fpn_def Let_def
        SequentialMultiOutput_forward_def downsample_conv_def
        nn_Conv2d_def nn_Conv2d_args_def weight_shape_def conv_args.defs conv_out_def)
  from t a b show ?thesis by simp
qed

text \<open>
  The claim as it stands says that the configuration error is raised, and before any
  evaluation. With \<open>in_channels=2\<close> the network is still loaded for three channels (line
  206), the probe evaluates it on an Array of two channels, and the call ends with the
  \<open>RuntimeError\<close> of that forward pass: the selector \<open>'bifpn'\<close> is never looked at. Nor
  is it with a ResNet name that the zoo does not hold: the call ends with the \<open>KeyError\<close>
  of the lookup.
\<close>

theorem unknown_fpn_type_counterexample:
  "make_segm_fpn_efficientnet echo_hub int pyramid_env fresh_world
       ''efficientnet_b0'' ''bifpn'' (64, 64) 64 5 ''imagenet'' 2
     = (Inl RuntimeError,
        \<lparr>training = False, grad_enabled = True,
         calls = [(False, False, torch_empty int (1, 2, 64, 64))]\<rparr>)
   \<and> RuntimeError \<noteq> NotImplementedError
   \<and> make_segm_fpn_resnet toy_zoo int pyramid_env fresh_world
       ''resnet99'' ''bifpn'' (64, 64) 64 5 True 3
     = (Inl KeyError, fresh_world)"
  by (simp add: make_segm_fpn_efficientnet_def efficientnet_backbone_def
        load_efficientnet_def echo_hub_def pyramid_env_def
        assemble_def get_shapes_def forward_def Let_def
        tshape_torch_empty fresh_world_def select_fpn_def
        make_segm_fpn_resnet_def resnet_backbone_def toy_zoo_def)


end
